theory Spec2Isabelle
  imports Main
begin

section \<open>JavaScript values used by the program\<close>

text \<open>
  A JavaScript string is a \<^typ>\<open>string\<close>; its \<open>length\<close> is the length of the list.
  A value that may be \<open>undefined\<close> is an \<open>option\<close>. A thrown value is either an
  \<open>Error\<close> object with its \<open>name\<close> and its \<open>message\<close>, or a bare string
  (\<open>throw "not implemented"\<close>).
\<close>

datatype thrown = Error string string | Str string

definition ValidationError :: "string \<Rightarrow> thrown" where
  "ValidationError message = Error ''ValidationError'' message"

definition ConfigUnsetError :: "string \<Rightarrow> thrown" where
  "ConfigUnsetError message = Error ''ConfigUnsetError'' message"

text \<open>\<open>error.name\<close> and \<open>error.message\<close> of a caught value; both are \<open>undefined\<close> on a string.\<close>

fun errorName :: "thrown \<Rightarrow> string option" where
  "errorName (Error n m) = Some n"
| "errorName (Str s) = None"

fun errorMessage :: "thrown \<Rightarrow> string option" where
  "errorMessage (Error n m) = Some m"
| "errorMessage (Str s) = None"

text \<open>A template literal prints \<open>undefined\<close> for an undefined value.\<close>

fun tmpl :: "string option \<Rightarrow> string" where
  "tmpl None = ''undefined''"
| "tmpl (Some s) = s"

text \<open>\<open>xs.join(sep)\<close>\<close>

fun join :: "string \<Rightarrow> string list \<Rightarrow> string" where
  "join sep [] = []"
| "join sep [x] = x"
| "join sep (x # y # ys) = x @ sep @ join sep (y # ys)"

text \<open>\<open>s.startsWith(p)\<close> and \<open>s.includes(p)\<close>\<close>

definition startsWith :: "string \<Rightarrow> string \<Rightarrow> bool" where
  "startsWith s p = (take (length p) s = p)"

fun includesStr :: "string \<Rightarrow> string \<Rightarrow> bool" where
  "includesStr [] p = (p = [])"
| "includesStr (c # cs) p = (startsWith (c # cs) p \<or> includesStr cs p)"

text \<open>\<open>s.toLowerCase()\<close> and \<open>s.trim()\<close>, on ASCII.\<close>

definition toLowerChar :: "char \<Rightarrow> char" where
  "toLowerChar c =
     (let n = (of_char c :: nat) in if 65 \<le> n \<and> n \<le> 90 then char_of (n + 32) else c)"

definition toLowerCase :: "string \<Rightarrow> string" where
  "toLowerCase s = map toLowerChar s"

definition isSpace :: "char \<Rightarrow> bool" where
  "isSpace c = ((of_char c :: nat) \<in> {9, 10, 11, 12, 13, 32})"

definition trim :: "string \<Rightarrow> string" where
  "trim s = rev (dropWhile isSpace (rev (dropWhile isSpace s)))"

definition backslash :: string where
  "backslash = [CHR 0x5C]"

definition newline :: string where
  "newline = [CHR 0x0A]"

section \<open>The host: everything the program reads from outside\<close>

text \<open>
  \<open>process.platform\<close>: \<open>win32\<close>, \<open>darwin\<close>, or any other value, for which the
  program takes its default branches; \<open>Linux\<close> stands for all of those.
\<close>

datatype platform = Win32 | Darwin | Linux

text \<open>
  An effect the program asks of a collaborator. \<open>GetFiles\<close>, \<open>Download\<close> and
  \<open>Upload\<close> are the calls of the blob-store client, the only network calls.
  The bucket name handed to the client is \<open>options.bucket!\<close>, an optional string.
\<close>

datatype event =
    Warning string
  | Exec string "string list"
  | WriteFile string string
  | MkdirP string
  | RmRF string
  | GetFiles "string option" string
  | Download string string
  | Upload "string option" string string string

fun isNetwork :: "event \<Rightarrow> bool" where
  "isNetwork (GetFiles b p) = True"
| "isNetwork (Download n d) = True"
| "isNetwork (Upload b a d c) = True"
| "isNetwork e = False"

fun isRmRF :: "event \<Rightarrow> bool" where
  "isRmRF (RmRF p) = True"
| "isRmRF e = False"

fun isWarning :: "event \<Rightarrow> bool" where
  "isWarning (Warning m) = True"
| "isWarning e = False"

text \<open>
  A remote object as the program reads it: \<open>file.name\<close>,
  \<open>file.metadata.timeCreated\<close> and \<open>file.metadata.contentType\<close>. The creation time
  is held as the instant its text denotes, in milliseconds since the epoch.
\<close>

record File =
  name :: string
  timeCreated :: "int option"
  contentType :: "string option"

text \<open>
  \<open>process.platform\<close>, \<open>process.env\<close>, \<open>process.cwd()\<close>, \<open>existsSync\<close>,
  \<open>io.which\<close> (the empty string when nothing is found), the combined output of a
  program run with \<open>exec\<close>, \<open>context.repo.repo\<close>, \<open>crypto.randomUUID()\<close>,
  \<open>path.join\<close>, \<open>path.relative\<close>, the files a glob pattern matches, the listing
  of a bucket under a prefix, and whether an awaited effect fails.
\<close>

record host =
  platform :: platform
  environ :: "string \<rightharpoonup> string"
  cwd :: string
  existsSync :: "string \<Rightarrow> bool"
  which :: "string \<Rightarrow> string"
  execOutput :: "string \<Rightarrow> string list \<Rightarrow> string"
  repo :: string
  randomUUID :: string
  pathJoin :: "string list \<Rightarrow> string"
  pathRelative :: "string \<Rightarrow> string \<Rightarrow> string"
  globFiles :: "string \<Rightarrow> thrown + string list"
  getFiles :: "string option \<Rightarrow> string \<Rightarrow> thrown + File list"
  fails :: "event \<Rightarrow> thrown option"

text \<open>
  The order in which the blob store lists the objects under a prefix: by name, byte by
  byte, a name before every longer name it begins.
\<close>

fun nameLe :: "string \<Rightarrow> string \<Rightarrow> bool" where
  "nameLe [] ys = True"
| "nameLe (x # xs) [] = False"
| "nameLe (x # xs) (y # ys) =
     ((of_char x :: nat) < of_char y \<or> (x = y \<and> nameLe xs ys))"

text \<open>\<open>path.sep\<close>, and \<open>s.replace(SepRe, "/")\<close> which rewrites every separator.\<close>

definition pathSep :: "host \<Rightarrow> char" where
  "pathSep w = (if platform w = Win32 then CHR 0x5C else CHR ''/'')"

definition replaceSep :: "host \<Rightarrow> string \<Rightarrow> string" where
  "replaceSep w s = map (\<lambda>c. if c = pathSep w then CHR ''/'' else c) s"

section \<open>utils.ts\<close>

datatype CompressionMethod = Gzip | Zstd

fun methodName :: "CompressionMethod \<Rightarrow> string" where
  "methodName Gzip = ''gzip''"
| "methodName Zstd = ''zstd''"

definition getCacheFilename :: "CompressionMethod \<Rightarrow> string" where
  "getCacheFilename method = ''cache.tar.'' @ methodName method"

definition getWorkingDirectory :: "host \<Rightarrow> string" where
  "getWorkingDirectory w =
     (case environ w ''GITHUB_WORKSPACE'' of None \<Rightarrow> cwd w | Some d \<Rightarrow> d)"

section \<open>tar.ts: the command builder\<close>

text \<open>
  The builder is modelled by its results: the strings it returns. Its debug output is
  left out.
\<close>

datatype ArchiveToolType = Gnu | Bsd

record ArchiveTool =
  path :: string
  type :: ArchiveToolType

datatype CommandType = Create | Extract | List

definition ManifestFilename :: string where
  "ManifestFilename = ''manifest.txt''"

definition getVersion :: "host \<Rightarrow> string \<Rightarrow> string list \<Rightarrow> string" where
  "getVersion w app additionalArgs = trim (execOutput w app (additionalArgs @ [''--version'']))"

definition getGnuTarPathOnWindows :: "host \<Rightarrow> string option" where
  "getGnuTarPathOnWindows w =
     (let gnuPath = tmpl (environ w ''PROGRAMFILES'') @ backslash @ ''Git'' @ backslash
                      @ ''usr'' @ backslash @ ''bin'' @ backslash @ ''tar.exe''
      in if existsSync w gnuPath then Some gnuPath
         else if includesStr (toLowerCase (getVersion w ''tar'' [])) ''gnu tar''
              then Some (which w ''tar'')
              else None)"

text \<open>\<open>io.which(tool, true)\<close> throws when the tool is not found.\<close>

definition whichChecked :: "host \<Rightarrow> string \<Rightarrow> thrown + string" where
  "whichChecked w tool =
     (if which w tool = [] then Inl (Error ''Error'' (''Unable to locate executable file: '' @ tool))
      else Inr (which w tool))"

definition getTarPath :: "host \<Rightarrow> thrown + ArchiveTool" where
  "getTarPath w =
     (case platform w of
        Win32 \<Rightarrow>
          (let gnuTar = getGnuTarPathOnWindows w;
               systemTar = tmpl (environ w ''SYSTEMDRIVE'') @ backslash @ ''Windows'' @ backslash
                             @ ''System32'' @ backslash @ ''tar.exe''
           in case gnuTar of
                None \<Rightarrow> Inr \<lparr>path = systemTar, type = Bsd\<rparr>
              | Some g \<Rightarrow> if g = [] then Inr \<lparr>path = systemTar, type = Bsd\<rparr>
                          else Inr \<lparr>path = g, type = Gnu\<rparr>)
      | Darwin \<Rightarrow>
          (let gnuTar = which w ''gtar''
           in if gnuTar \<noteq> [] then Inr \<lparr>path = gnuTar, type = Gnu\<rparr>
              else (case whichChecked w ''tar'' of
                      Inl e \<Rightarrow> Inl e
                    | Inr p \<Rightarrow> Inr \<lparr>path = p, type = Bsd\<rparr>))
      | Linux \<Rightarrow>
          (case whichChecked w ''tar'' of
             Inl e \<Rightarrow> Inl e
           | Inr p \<Rightarrow> Inr \<lparr>path = p, type = Gnu\<rparr>))"

definition bsdTarZstd :: "host \<Rightarrow> ArchiveTool \<Rightarrow> CompressionMethod \<Rightarrow> bool" where
  "bsdTarZstd w tar method = (type tar = Bsd \<and> method = Zstd \<and> platform w = Win32)"

definition getTarArgs ::
  "host \<Rightarrow> ArchiveTool \<Rightarrow> CompressionMethod \<Rightarrow> CommandType \<Rightarrow> string \<Rightarrow> string list" where
  "getTarArgs w tar method ty archive =
     (let filename = getCacheFilename method;
          workdir = getWorkingDirectory w;
          tarfile = ''cache.tar'';
          args = [path tar] @
            (case ty of
               Create \<Rightarrow>
                 [''--posix'', ''-cf'',
                  if bsdTarZstd w tar method then tarfile else replaceSep w filename,
                  ''--exclude'',
                  if bsdTarZstd w tar method then tarfile else replaceSep w filename,
                  ''-P'', ''-C'', replaceSep w workdir, ''--files-from'', ManifestFilename]
             | Extract \<Rightarrow>
                 [''-xf'',
                  if bsdTarZstd w tar method then tarfile else replaceSep w archive,
                  ''-P'', ''-C'', replaceSep w workdir]
             | List \<Rightarrow>
                 [''-tf'',
                  if bsdTarZstd w tar method then tarfile else replaceSep w archive,
                  ''-P''])
      in if type tar = Gnu
         then (case platform w of
                 Win32 \<Rightarrow> args @ [''--force-local'']
               | Darwin \<Rightarrow> args @ [''--delay-directory-restore'']
               | Linux \<Rightarrow> args)
         else args)"

definition getCompressionProgram ::
  "host \<Rightarrow> ArchiveTool \<Rightarrow> CompressionMethod \<Rightarrow> string list" where
  "getCompressionProgram w tar method =
     (let filename = getCacheFilename method
      in case method of
           Zstd \<Rightarrow>
             (if bsdTarZstd w tar method
              then [''zstd -T0 --force -o'', replaceSep w filename, ''cache.tar'']
              else [''--use-compress-program'',
                    if platform w = Win32 then ''\"zstd -T0\"'' else ''zstdmt''])
         | Gzip \<Rightarrow> [''-z''])"

definition getDecompressionProgram ::
  "host \<Rightarrow> ArchiveTool \<Rightarrow> CompressionMethod \<Rightarrow> string \<Rightarrow> string list" where
  "getDecompressionProgram w tar method archive =
     (case method of
        Zstd \<Rightarrow>
          (if bsdTarZstd w tar method
           then [''zstd -d --force -o'', ''cache.tar'', replaceSep w archive]
           else [''--use-compress-program'',
                 if platform w = Win32 then ''\"zstd -d\"'' else ''zstdmt''])
      | Gzip \<Rightarrow> [''-z''])"

definition getCommands ::
  "host \<Rightarrow> CompressionMethod \<Rightarrow> CommandType \<Rightarrow> string \<Rightarrow> thrown + string list" where
  "getCommands w method ty archive =
     (case getTarPath w of
        Inl e \<Rightarrow> Inl e
      | Inr tar \<Rightarrow>
          (let tarArgs = getTarArgs w tar method ty archive;
               compressArgs =
                 (if ty \<noteq> Create then getDecompressionProgram w tar method archive
                  else getCompressionProgram w tar method);
               args =
                 (if bsdTarZstd w tar method \<and> ty \<noteq> Create
                  then [join '' '' compressArgs, join '' '' tarArgs]
                  else [join '' '' tarArgs, join '' '' compressArgs])
           in if bsdTarZstd w tar method then Inr args else Inr [join '' '' args]))"

section \<open>Effects\<close>

text \<open>
  A computation returns what it throws or what it returns, with the effects it asked
  for, in order. An awaited effect throws when it fails. An effect that is only started
  (a promise that is never awaited, or a log line) never throws into the caller: its
  outcome is not read.
\<close>

type_synonym 'a io = "(thrown + 'a) \<times> event list"

definition ok :: "'a \<Rightarrow> 'a io" where
  "ok x = (Inr x, [])"

definition throw :: "thrown \<Rightarrow> 'a io" where
  "throw e = (Inl e, [])"

definition andThen :: "'a io \<Rightarrow> ('a \<Rightarrow> 'b io) \<Rightarrow> 'b io" where
  "andThen m f =
     (case m of
        (Inl e, t) \<Rightarrow> (Inl e, t)
      | (Inr x, t) \<Rightarrow> (case f x of (r, t') \<Rightarrow> (r, t @ t')))"

definition tryCatch :: "'a io \<Rightarrow> (thrown \<Rightarrow> 'a io) \<Rightarrow> 'a io" where
  "tryCatch m handler =
     (case m of
        (Inl e, t) \<Rightarrow> (case handler e of (r, t') \<Rightarrow> (r, t @ t'))
      | (Inr x, t) \<Rightarrow> (Inr x, t))"

definition awaited :: "host \<Rightarrow> event \<Rightarrow> unit io" where
  "awaited w ev = (case fails w ev of None \<Rightarrow> (Inr (), [ev]) | Some e \<Rightarrow> (Inl e, [ev]))"

definition emit :: "event \<Rightarrow> unit io" where
  "emit ev = (Inr (), [ev])"

section \<open>options.ts\<close>

text \<open>
  An options object lives in a store of objects and is passed by reference: the
  caller and the callee hold its address. A new object \<open>{}\<close> is allocated at the end
  of the store. An address handed in by a caller is the address of an object it holds.
\<close>

record Options =
  bucket :: "string option"
  lookupOnly :: "bool option"

type_synonym addr = nat
type_synonym heap = "Options list"

definition getCommonOptions :: "host \<Rightarrow> heap \<Rightarrow> addr option \<Rightarrow> (thrown + addr) \<times> heap" where
  "getCommonOptions w h base =
     (let (options, h1) =
            (case base of
               Some a \<Rightarrow> (a, h)
             | None \<Rightarrow> (length h, h @ [\<lparr>bucket = None, lookupOnly = None\<rparr>]))
      in if bucket (h1 ! options) = None
         then (case environ w ''ACTIONS_GCS_CACHE_BUCKET'' of
                 None \<Rightarrow>
                   (Inl (ConfigUnsetError ''Config Error: no bucket value provided and ACTIONS_GCS_CACHE_BUCKET environment variable is unset''), h1)
               | Some v \<Rightarrow>
                   if v = []
                   then (Inl (ConfigUnsetError ''Config Error: no bucket value provided and ACTIONS_GCS_CACHE_BUCKET environment variable is unset''), h1)
                   else (Inr options, h1[options := (h1 ! options)\<lparr>bucket := Some v\<rparr>]))
         else (Inr options, h1))"

definition getUploadOptions :: "host \<Rightarrow> heap \<Rightarrow> addr option \<Rightarrow> (thrown + addr) \<times> heap" where
  "getUploadOptions w h base = getCommonOptions w h base"

definition getDownloadOptions :: "host \<Rightarrow> heap \<Rightarrow> addr option \<Rightarrow> (thrown + addr) \<times> heap" where
  "getDownloadOptions w h base =
     (case getCommonOptions w h base of
        (Inl e, h1) \<Rightarrow> (Inl e, h1)
      | (Inr options, h1) \<Rightarrow>
          if lookupOnly (h1 ! options) = None
          then (Inr options, h1[options := (h1 ! options)\<lparr>lookupOnly := Some False\<rparr>])
          else (Inr options, h1))"

section \<open>The cache module: saveCache and restoreCache\<close>

text \<open>
  Debug output is left out; warnings are effects. Making the \<open>Storage\<close> and the
  bucket handle does no I/O; it is not an effect and is taken not to throw. The functions \<open>createTar\<close> and
  \<open>extractTar\<close> here are the cache module's own, which \<open>saveCache\<close> and
  \<open>restoreCache\<close> call.
\<close>

definition ContentTypePrefix :: string where
  "ContentTypePrefix = ''application/x-actions-cache-gcs-''"

definition checkKey :: "string \<Rightarrow> thrown + unit" where
  "checkKey key =
     (if length key > 512
      then Inl (ValidationError (''Key Validation Error: '' @ key @ '' cannot be larger than 512 characters.''))
      else Inr ())"

text \<open>\<open>for (const key of keys) checkKey(key)\<close>\<close>

fun checkKeys :: "string list \<Rightarrow> thrown + unit" where
  "checkKeys [] = Inr ()"
| "checkKeys (key # keys) = (case checkKey key of Inl e \<Rightarrow> Inl e | Inr u \<Rightarrow> checkKeys keys)"

definition getZstdVersion :: "host \<Rightarrow> string io" where
  "getZstdVersion w =
     (Inr (execOutput w ''zstd'' [''--quiet'', ''--version'']),
      [Exec ''zstd'' [''--quiet'', ''--version'']])"

definition getCompressionMethod :: "host \<Rightarrow> CompressionMethod io" where
  "getCompressionMethod w =
     andThen (getZstdVersion w) (\<lambda>versionOutput. ok (if versionOutput = [] then Gzip else Zstd))"

text \<open>\<open>new Date(file.metadata.timeCreated || 0)\<close>: a missing time reads as the epoch.\<close>

definition dateOf :: "File \<Rightarrow> int" where
  "dateOf f = (case timeCreated f of None \<Rightarrow> 0 | Some t \<Rightarrow> t)"

text \<open>The inner loop of \<open>findCacheEntry\<close>, over all the files, from \<open>newest = files[0]\<close>.\<close>

fun newestLoop :: "File \<Rightarrow> File list \<Rightarrow> File" where
  "newestLoop newest [] = newest"
| "newestLoop newest (f # fs) = newestLoop (if dateOf newest < dateOf f then f else newest) fs"

fun findCacheEntry :: "host \<Rightarrow> string list \<Rightarrow> string option \<Rightarrow> (File option) io" where
  "findCacheEntry w [] bucketName = (Inr None, [])"
| "findCacheEntry w (key # keys) bucketName =
     (case getFiles w bucketName (repo w @ ''/'' @ key) of
        Inl e \<Rightarrow> (Inl e, [GetFiles bucketName (repo w @ ''/'' @ key)])
      | Inr [] \<Rightarrow>
          (case findCacheEntry w keys bucketName of
             (r, t) \<Rightarrow> (r, GetFiles bucketName (repo w @ ''/'' @ key) # t))
      | Inr (f # fs) \<Rightarrow>
          (if name f = repo w @ ''/'' @ key then Inr (Some f)
           else Inr (Some (newestLoop f (f # fs))),
           [GetFiles bucketName (repo w @ ''/'' @ key)]))"

definition createTempDirectory :: "host \<Rightarrow> string io" where
  "createTempDirectory w =
     (let baseloc =
            (case platform w of
               Win32 \<Rightarrow> (case environ w ''USERPROFILE'' of
                           None \<Rightarrow> ''C:'' @ backslash
                         | Some u \<Rightarrow> if u = [] then ''C:'' @ backslash else u)
             | Darwin \<Rightarrow> ''/Users''
             | Linux \<Rightarrow> ''/home'');
          tempdir =
            (case environ w ''RUNNER_TEMP'' of
               None \<Rightarrow> pathJoin w [baseloc, ''actions'', ''temp'']
             | Some t \<Rightarrow> if t = [] then pathJoin w [baseloc, ''actions'', ''temp''] else t);
          dest = pathJoin w [tempdir, randomUUID w]
      in andThen (awaited w (MkdirP dest)) (\<lambda>u. ok dest))"

definition createTar ::
  "host \<Rightarrow> string \<Rightarrow> string \<Rightarrow> string list \<Rightarrow> CompressionMethod \<Rightarrow> unit io" where
  "createTar w archive tempdir paths method =
     (let manifest = pathJoin w [tempdir, ''manifest.txt''];
          args = [''cf'', archive, ''--files-from'', manifest]
                   @ (if method = Gzip then [''--gzip''] else [''--zstd''])
      in andThen (awaited w (WriteFile manifest (join newline paths)))
           (\<lambda>u. awaited w (Exec ''tar'' args)))"

text \<open>
  \<open>exec.exec("tar", ["xf", archive])\<close> is started and not awaited: the \<open>try\<close> around
  it sees no failure of the tar process.
\<close>

definition extractTar :: "host \<Rightarrow> string \<Rightarrow> unit io" where
  "extractTar w archive =
     andThen (awaited w (MkdirP (getWorkingDirectory w)))
       (\<lambda>u. emit (Exec ''tar'' [''xf'', archive]))"

definition resolvePaths :: "host \<Rightarrow> string list \<Rightarrow> (string list) io" where
  "resolvePaths w patterns =
     (case globFiles w (join newline patterns) of
        Inl e \<Rightarrow> throw e
      | Inr files \<Rightarrow>
          ok (map (\<lambda>f. let relative = replaceSep w (pathRelative w (getWorkingDirectory w) f)
                        in if relative = [] then ''.'' else relative) files))"

text \<open>
  The body of \<open>saveCache\<close> after its options are read. \<open>bucket.upload\<close> is started
  and not awaited; the \<open>catch\<close> block is empty; the last statement throws.
\<close>

definition saveCacheBody :: "host \<Rightarrow> Options \<Rightarrow> string list \<Rightarrow> string \<Rightarrow> unit io" where
  "saveCacheBody w options paths key =
     andThen (getCompressionMethod w) (\<lambda>method.
     andThen (resolvePaths w paths) (\<lambda>cachePaths.
       if length cachePaths = 0
       then throw (ValidationError ''Path Validation Error: Path(s) specified in teh action for caching do(es) not exist, hence no cache is being saved'')
       else
         andThen (createTempDirectory w) (\<lambda>tempdir.
           let archive = pathJoin w [tempdir, ''cache.tar.'' @ methodName method]
           in andThen
                (tryCatch
                   (andThen (createTar w archive tempdir paths method)
                      (\<lambda>u. emit (Upload (bucket options) archive (repo w @ ''/'' @ key)
                                    (ContentTypePrefix @ methodName method))))
                   (\<lambda>e. ok ()))
                (\<lambda>u. throw (Str ''not implemented'')))))"

definition saveCache ::
  "host \<Rightarrow> heap \<Rightarrow> string list \<Rightarrow> string \<Rightarrow> addr option \<Rightarrow> unit io \<times> heap" where
  "saveCache w h paths key options =
     (case getUploadOptions w h options of
        (Inl e, h1) \<Rightarrow> ((Inl e, []), h1)
      | (Inr a, h1) \<Rightarrow> (saveCacheBody w (h1 ! a) paths key, h1))"

text \<open>
  The \<open>try\<close> block of \<open>restoreCache\<close>: what it returns or throws, and the value of
  the variable \<open>destination\<close> when it ends.
\<close>

definition restoreTry ::
  "host \<Rightarrow> Options \<Rightarrow> string list \<Rightarrow> (string option) io \<times> string option" where
  "restoreTry w options keys =
     (case findCacheEntry w keys (bucket options) of
        (Inl e, t) \<Rightarrow> ((Inl e, t), None)
      | (Inr None, t) \<Rightarrow> ((Inr None, t), None)
      | (Inr (Some entry), t) \<Rightarrow>
          (case contentType entry of
             None \<Rightarrow>
               ((Inr None, t @ [Warning (''Cache entry '' @ name entry @ '' did not have a Content-Type set'')]), None)
           | Some ct \<Rightarrow>
               if ct = []
               then ((Inr None, t @ [Warning (''Cache entry '' @ name entry @ '' did not have a Content-Type set'')]), None)
               else if \<not> startsWith ct ContentTypePrefix
               then ((Inr None, t @ [Warning (''Cache entry '' @ name entry @ '' had unsupported Content-Type'')]), None)
               else if drop (length ContentTypePrefix) ct \<noteq> ''zstd''
                       \<and> drop (length ContentTypePrefix) ct \<noteq> ''gzip''
               then ((Inr None, t @ [Warning (''Cache entry '' @ name entry @ '' had unsupported Content-Type'')]), None)
               else if lookupOnly options \<noteq> Some True
               then (case createTempDirectory w of
                       (Inl e, t1) \<Rightarrow> ((Inl e, t @ t1), None)
                     | (Inr tmpdir, t1) \<Rightarrow>
                         (let destination = tmpdir @ ''/cache.tar.'' @ drop (length ContentTypePrefix) ct
                          in case andThen (awaited w (Download (name entry) destination))
                                    (\<lambda>u. extractTar w destination) of
                               (Inl e, t2) \<Rightarrow> ((Inl e, t @ t1 @ t2), Some destination)
                             | (Inr u, t2) \<Rightarrow>
                                 ((Inr (Some (drop (length (repo w)) (name entry))), t @ t1 @ t2),
                                  Some destination)))
               else ((Inr (Some (drop (length (repo w)) (name entry))), t), None)))"

text \<open>The \<open>catch\<close> block: a validation error is thrown again, any other is a warning.\<close>

definition restoreCatch :: "thrown \<Rightarrow> (string option) io" where
  "restoreCatch e =
     (if errorName e = Some ''ValidationError'' then throw e
      else andThen (emit (Warning (''Failed to restore: '' @ tmpl (errorMessage e))))
             (\<lambda>u. ok None))"

text \<open>The \<open>finally\<close> block: a failure of \<open>io.rmRF\<close> is caught there.\<close>

definition restoreFinally :: "string option \<Rightarrow> event list" where
  "restoreFinally destination =
     (case destination of
        None \<Rightarrow> []
      | Some d \<Rightarrow> if d = [] then [] else [RmRF d])"

definition restoreCache ::
  "host \<Rightarrow> heap \<Rightarrow> string list \<Rightarrow> string \<Rightarrow> string list option \<Rightarrow> addr option
     \<Rightarrow> (string option) io \<times> heap" where
  "restoreCache w h paths primaryKey restoreKeys options =
     (case getDownloadOptions w h options of
        (Inl e, h1) \<Rightarrow> ((Inl e, []), h1)
      | (Inr a, h1) \<Rightarrow>
          (let keys = primaryKey # (case restoreKeys of None \<Rightarrow> [] | Some ks \<Rightarrow> ks)
           in if length keys > 10
              then (throw (ValidationError ''Key Validation Error: Keys are limited to a maximum of 10''), h1)
              else (case checkKeys keys of
                      Inl e \<Rightarrow> (throw e, h1)
                    | Inr u \<Rightarrow>
                        (case restoreTry w (h1 ! a) keys of
                           (m, destination) \<Rightarrow>
                             (case tryCatch m restoreCatch of
                                (r, t) \<Rightarrow> ((r, t @ restoreFinally destination), h1))))))"

section \<open>Hosts used to run the program on concrete inputs\<close>

definition plainJoin :: "string list \<Rightarrow> string" where
  "plainJoin parts = join ''/'' parts"

definition linuxHost :: host where
  "linuxHost =
     \<lparr>platform = Linux, environ = [''ACTIONS_GCS_CACHE_BUCKET'' \<mapsto> ''b''], cwd = ''/w'',
      existsSync = (\<lambda>p. False), which = (\<lambda>t. ''/usr/bin/'' @ t),
      execOutput = (\<lambda>app args. []), repo = ''r'', randomUUID = ''u'',
      pathJoin = plainJoin, pathRelative = (\<lambda>a b. b),
      globFiles = (\<lambda>p. Inr [p]), getFiles = (\<lambda>b p. Inr []), fails = (\<lambda>ev. None)\<rparr>"

definition windowsHost :: host where
  "windowsHost =
     linuxHost\<lparr>platform := Win32, which := (\<lambda>t. []),
       environ := [''SYSTEMDRIVE'' \<mapsto> ''C:'', ''ACTIONS_GCS_CACHE_BUCKET'' \<mapsto> ''b'']\<rparr>"

definition noBucketHost :: host where
  "noBucketHost = linuxHost\<lparr>environ := Map.empty\<rparr>"

definition fileK :: File where
  "fileK = \<lparr>name = ''r/k'', timeCreated = Some 1,
            contentType = Some ''application/x-actions-cache-gcs-gzip''\<rparr>"

definition fileKx :: File where
  "fileKx = \<lparr>name = ''r/kx'', timeCreated = Some 5,
             contentType = Some ''application/x-actions-cache-gcs-gzip''\<rparr>"

definition fileKy :: File where
  "fileKy = \<lparr>name = ''r/ky'', timeCreated = Some 7,
             contentType = Some ''application/x-actions-cache-gcs-zstd''\<rparr>"

definition hitHost :: host where
  "hitHost = linuxHost\<lparr>getFiles := (\<lambda>b p. if p = ''r/k'' then Inr [fileK] else Inr [])\<rparr>"

definition tarFailHost :: host where
  "tarFailHost =
     hitHost\<lparr>fails := (\<lambda>ev. case ev of
                           Exec tool args \<Rightarrow>
                             if tool = ''tar'' then Some (Error ''Error'' ''tar exited with code 2'')
                             else None
                         | _ \<Rightarrow> None)\<rparr>"

definition sortedHost :: host where
  "sortedHost =
     linuxHost\<lparr>getFiles := (\<lambda>b p. if p = ''r/k'' then Inr [fileK, fileKx, fileKy] else Inr [])\<rparr>"

definition prefixHost :: host where
  "prefixHost =
     linuxHost\<lparr>getFiles := (\<lambda>b p. if p = ''r/k'' then Inr [fileKx, fileKy] else Inr [])\<rparr>"

definition uploadFailHost :: host where
  "uploadFailHost =
     linuxHost\<lparr>fails := (\<lambda>ev. if isNetwork ev then Some (Error ''Error'' ''upload failed'') else None)\<rparr>"

definition longKey :: string where
  "longKey = replicate 513 (CHR ''k'')"

definition winTar :: ArchiveTool where
  "winTar = \<lparr>path = ''C:'' @ backslash @ ''Windows'' @ backslash @ ''System32'' @ backslash @ ''tar.exe'',
             type = Bsd\<rparr>"

text \<open>The effects that run a program.\<close>

fun isExec :: "event \<Rightarrow> bool" where
  "isExec (Exec tool args) = True"
| "isExec e = False"

section \<open>Unfolding rules\<close>

lemmas io_defs = ok_def throw_def andThen_def tryCatch_def awaited_def emit_def

lemmas host_defs = linuxHost_def windowsHost_def noBucketHost_def hitHost_def tarFailHost_def
  sortedHost_def prefixHost_def uploadFailHost_def plainJoin_def

lemmas save_defs = saveCache_def saveCacheBody_def getUploadOptions_def getCommonOptions_def
  getCompressionMethod_def getZstdVersion_def resolvePaths_def createTempDirectory_def
  createTar_def getWorkingDirectory_def replaceSep_def pathSep_def ContentTypePrefix_def
  newline_def ValidationError_def ConfigUnsetError_def

lemmas restore_defs = restoreCache_def restoreTry_def restoreCatch_def restoreFinally_def
  getDownloadOptions_def getCommonOptions_def createTempDirectory_def extractTar_def
  getWorkingDirectory_def ContentTypePrefix_def startsWith_def checkKey_def
  ValidationError_def ConfigUnsetError_def

section \<open>The command builder on the BSD, zstd, Windows combination\<close>

lemma replaceSep_cache_filename:
  "platform w = Win32 \<Longrightarrow> replaceSep w ''cache.tar.zstd'' = ''cache.tar.zstd''"
  by (simp add: replaceSep_def pathSep_def)

text \<open>
  Claim C7. When the archiving tool resolves, \<open>getCommands\<close> returns exactly two
  commands on the combination of a BSD tool, zstd and a Windows host, for create and for
  extract, and exactly one command on every other combination. On that combination
  create is the archiving command followed by the compression command, and extract is
  the decompression command followed by the archiving command.
\<close>

theorem getCommands_two_or_one:
  assumes "getTarPath w = Inr tar"
  shows "(bsdTarZstd w tar method \<longrightarrow>
            getCommands w method Create archive =
              Inr [path tar @ '' --posix -cf cache.tar --exclude cache.tar -P -C ''
                     @ replaceSep w (getWorkingDirectory w) @ '' --files-from manifest.txt'',
                   ''zstd -T0 --force -o cache.tar.zstd cache.tar'']
          \<and> getCommands w method Extract archive =
              Inr [''zstd -d --force -o cache.tar '' @ replaceSep w archive,
                   path tar @ '' -xf cache.tar -P -C '' @ replaceSep w (getWorkingDirectory w)])
       \<and> (\<not> bsdTarZstd w tar method \<longrightarrow>
            (\<exists>c. getCommands w method Create archive = Inr [c])
          \<and> (\<exists>c. getCommands w method Extract archive = Inr [c]))"
proof (cases "bsdTarZstd w tar method")
  case True
  then have m: "method = Zstd" and p: "platform w = Win32" and b: "type tar = Bsd"
    by (simp_all add: bsdTarZstd_def)
  show ?thesis
    using assms True
    by (simp add: getCommands_def getTarArgs_def getCompressionProgram_def
        getDecompressionProgram_def getCacheFilename_def ManifestFilename_def m p b
        replaceSep_cache_filename Let_def)
next
  case False
  then show ?thesis
    using assms by (simp add: getCommands_def)
qed

theorem getCommands_two_or_one_witness:
  "getTarPath windowsHost = Inr winTar
   \<and> bsdTarZstd windowsHost winTar Zstd
   \<and> getCommands windowsHost Zstd Create [] =
       Inr [path winTar @ '' --posix -cf cache.tar --exclude cache.tar -P -C /w --files-from manifest.txt'',
            ''zstd -T0 --force -o cache.tar.zstd cache.tar'']
   \<and> getCommands windowsHost Zstd Extract (''C:'' @ backslash @ ''t'' @ backslash @ ''cache.tar.zstd'') =
       Inr [''zstd -d --force -o cache.tar C:/t/cache.tar.zstd'',
            path winTar @ '' -xf cache.tar -P -C /w'']
   \<and> \<not> bsdTarZstd windowsHost winTar Gzip
   \<and> (\<exists>c. getCommands windowsHost Gzip Create [] = Inr [c])
   \<and> (\<exists>c. getCommands windowsHost Gzip Extract ''a'' = Inr [c])"
proof -
  have t: "getTarPath windowsHost = Inr winTar"
    by (simp add: getTarPath_def windowsHost_def linuxHost_def getGnuTarPathOnWindows_def
        getVersion_def trim_def toLowerCase_def winTar_def)
  have z: "bsdTarZstd windowsHost winTar Zstd" and g: "\<not> bsdTarZstd windowsHost winTar Gzip"
    by (simp_all add: bsdTarZstd_def winTar_def windowsHost_def)
  have wd: "replaceSep windowsHost (getWorkingDirectory windowsHost) = ''/w''"
    by (simp add: replaceSep_def pathSep_def getWorkingDirectory_def windowsHost_def linuxHost_def)
  have ar: "replaceSep windowsHost (''C:'' @ backslash @ ''t'' @ backslash @ ''cache.tar.zstd'')
              = ''C:/t/cache.tar.zstd''"
    by (simp add: replaceSep_def pathSep_def windowsHost_def backslash_def)
  from getCommands_two_or_one [OF t, of Zstd "[]"]
       getCommands_two_or_one [OF t, of Zstd "''C:'' @ backslash @ ''t'' @ backslash @ ''cache.tar.zstd''"]
       getCommands_two_or_one [OF t, of Gzip "[]"]
       getCommands_two_or_one [OF t, of Gzip "''a''"]
       t z g wd ar
  show ?thesis by simp
qed

section \<open>Resolution of a cache entry\<close>

lemma newestLoop_mem: "newestLoop n fs \<in> set (n # fs)"
  by (induction fs arbitrary: n) auto

lemma newestLoop_ge_start: "dateOf n \<le> dateOf (newestLoop n fs)"
proof (induction fs arbitrary: n)
  case Nil
  show ?case by simp
next
  case (Cons f fs)
  have "dateOf n \<le> dateOf (if dateOf n < dateOf f then f else n)" by simp
  also have "\<dots> \<le> dateOf (newestLoop (if dateOf n < dateOf f then f else n) fs)"
    by (rule Cons.IH)
  finally show ?case by simp
qed

lemma newestLoop_ge_all: "g \<in> set fs \<Longrightarrow> dateOf g \<le> dateOf (newestLoop n fs)"
proof (induction fs arbitrary: n)
  case Nil
  then show ?case by simp
next
  case (Cons f fs)
  show ?case
  proof (cases "g = f")
    case True
    have "dateOf f \<le> dateOf (if dateOf n < dateOf f then f else n)" by simp
    also have "\<dots> \<le> dateOf (newestLoop (if dateOf n < dateOf f then f else n) fs)"
      by (rule newestLoop_ge_start)
    finally show ?thesis using True by simp
  next
    case False
    with Cons.prems have "g \<in> set fs" by simp
    then show ?thesis using Cons.IH by simp
  qed
qed

text \<open>Keys whose listing is empty are passed over.\<close>

lemma findCacheEntry_skip:
  "list_all (\<lambda>k. getFiles w b (repo w @ ''/'' @ k) = Inr []) pre \<Longrightarrow>
   fst (findCacheEntry w (pre @ ks) b) = fst (findCacheEntry w ks b)"
  by (induction pre) (auto split: prod.splits)

text \<open>An exact match in the first place of the listing is returned at once.\<close>

lemma findCacheEntry_first_exact:
  assumes "list_all (\<lambda>k. getFiles w b (repo w @ ''/'' @ k) = Inr []) pre"
    and "getFiles w b (repo w @ ''/'' @ key) = Inr (f # fs)"
    and "name f = repo w @ ''/'' @ key"
  shows "fst (findCacheEntry w (pre @ key # keys) b) = Inr (Some f)"
  using assms by (simp add: findCacheEntry_skip)

text \<open>In the order of the store a prefix comes before each of its extensions.\<close>

lemma nameLe_append: "nameLe p (p @ s)"
  by (induction p) auto

lemma nameLe_Nil: "nameLe ys [] \<Longrightarrow> ys = []"
  by (cases ys) auto

lemma nameLe_antisym: "nameLe a b \<Longrightarrow> nameLe b a \<Longrightarrow> a = b"
  by (induction a b rule: nameLe.induct) (auto dest: nameLe_Nil)

lemma startsWith_nameLe: "startsWith n p \<Longrightarrow> nameLe p n"
proof -
  assume "startsWith n p"
  then have "n = p @ drop (length p) n"
    by (metis append_take_drop_id startsWith_def)
  then show "nameLe p n"
    by (metis nameLe_append)
qed

text \<open>
  Claim C4. The listing returned for the prefix \<open>{scope}/{key}\<close> is one of the
  store: its names are in the order of the store, no two are the same, and each begins
  with the prefix. When it holds an object named exactly \<open>{scope}/{key}\<close>, with
  whatever other objects and creation times, and every earlier candidate key has an
  empty listing, resolution returns that object.
\<close>

theorem findCacheEntry_exact_match:
  assumes "list_all (\<lambda>k. getFiles w b (repo w @ ''/'' @ k) = Inr []) pre"
    and "getFiles w b (repo w @ ''/'' @ key) = Inr files"
    and "sorted_wrt nameLe (map name files)"
    and "distinct (map name files)"
    and "list_all (\<lambda>f. startsWith (name f) (repo w @ ''/'' @ key)) files"
    and "g \<in> set files"
    and "name g = repo w @ ''/'' @ key"
  shows "fst (findCacheEntry w (pre @ key # keys) b) = Inr (Some g)"
proof -
  from assms(6) obtain f fs where files: "files = f # fs"
    by (cases files) auto
  have first: "name f = repo w @ ''/'' @ key"
  proof (cases "g = f")
    case True
    with assms(7) show ?thesis by simp
  next
    case False
    with assms(6) files have "g \<in> set fs" by simp
    with assms(3) files have "nameLe (name f) (name g)" by auto
    moreover from assms(5) files have "nameLe (repo w @ ''/'' @ key) (name f)"
      by (simp add: startsWith_nameLe)
    ultimately show ?thesis
      using assms(7) by (simp add: nameLe_antisym)
  qed
  have "f = g"
  proof -
    from assms(4) have "inj_on name (set files)"
      by (simp add: distinct_map)
    moreover have "f \<in> set files" using files by simp
    moreover have "name f = name g" using first assms(7) by simp
    ultimately show ?thesis using assms(6) by (auto dest: inj_onD)
  qed
  with assms(1,2) files first show ?thesis
    by (simp add: findCacheEntry_first_exact)
qed

theorem findCacheEntry_exact_match_witness:
  "getFiles sortedHost (Some ''b'') (repo sortedHost @ ''/'' @ ''k'') = Inr [fileK, fileKx, fileKy]
   \<and> sorted_wrt nameLe (map name [fileK, fileKx, fileKy])
   \<and> distinct (map name [fileK, fileKx, fileKy])
   \<and> list_all (\<lambda>f. startsWith (name f) (repo sortedHost @ ''/'' @ ''k'')) [fileK, fileKx, fileKy]
   \<and> name fileK = repo sortedHost @ ''/'' @ ''k''
   \<and> dateOf fileK < dateOf fileKx \<and> dateOf fileKx < dateOf fileKy
   \<and> fst (findCacheEntry sortedHost ([''j''] @ ''k'' # [''m'']) (Some ''b'')) = Inr (Some fileK)"
proof -
  have a: "list_all (\<lambda>k. getFiles sortedHost (Some ''b'') (repo sortedHost @ ''/'' @ k) = Inr []) [''j'']"
    by (simp add: host_defs)
  have b: "getFiles sortedHost (Some ''b'') (repo sortedHost @ ''/'' @ ''k'') = Inr [fileK, fileKx, fileKy]"
    by (simp add: host_defs)
  have c: "sorted_wrt nameLe (map name [fileK, fileKx, fileKy])"
    by (simp add: fileK_def fileKx_def fileKy_def)
  have d: "distinct (map name [fileK, fileKx, fileKy])"
    by (simp add: fileK_def fileKx_def fileKy_def)
  have e: "list_all (\<lambda>f. startsWith (name f) (repo sortedHost @ ''/'' @ ''k'')) [fileK, fileKx, fileKy]"
    by (simp add: host_defs startsWith_def fileK_def fileKx_def fileKy_def)
  have f: "fileK \<in> set [fileK, fileKx, fileKy]" by simp
  have g: "name fileK = repo sortedHost @ ''/'' @ ''k''"
    by (simp add: host_defs fileK_def)
  have t: "dateOf fileK < dateOf fileKx \<and> dateOf fileKx < dateOf fileKy"
    by (simp add: dateOf_def fileK_def fileKx_def fileKy_def)
  from findCacheEntry_exact_match [OF a b c d e f g, of "[''m'']"] b c d e g t
  show ?thesis by simp
qed

text \<open>
  Claim C9. When the listing for the prefix \<open>{scope}/{key}\<close> has several objects,
  none of them named exactly \<open>{scope}/{key}\<close>, and every earlier candidate key has an
  empty listing, resolution returns an object of the listing whose creation time is the
  latest of all the objects listed. An object with no creation time counts as created
  at the epoch, as \<open>dateOf\<close> reads it.
\<close>

theorem findCacheEntry_newest:
  assumes "list_all (\<lambda>k. getFiles w b (repo w @ ''/'' @ k) = Inr []) pre"
    and "getFiles w b (repo w @ ''/'' @ key) = Inr files"
    and "2 \<le> length files"
    and "list_all (\<lambda>f. name f \<noteq> repo w @ ''/'' @ key) files"
  shows "\<exists>f. fst (findCacheEntry w (pre @ key # keys) b) = Inr (Some f)
             \<and> f \<in> set files \<and> list_all (\<lambda>g. dateOf g \<le> dateOf f) files"
proof -
  from assms(3) obtain f0 fs where files: "files = f0 # fs"
    by (cases files) auto
  with assms(4) have ne: "name f0 \<noteq> repo w @ ''/'' @ key" by simp
  have r: "fst (findCacheEntry w (pre @ key # keys) b) = Inr (Some (newestLoop f0 files))"
    using assms(1,2) files ne by (simp add: findCacheEntry_skip)
  have m: "newestLoop f0 files \<in> set files"
    using newestLoop_mem [of f0 files] files by auto
  have g: "list_all (\<lambda>g. dateOf g \<le> dateOf (newestLoop f0 files)) files"
    by (simp add: list_all_iff newestLoop_ge_all)
  from r m g show ?thesis by blast
qed

theorem findCacheEntry_newest_witness:
  "getFiles prefixHost (Some ''b'') (repo prefixHost @ ''/'' @ ''k'') = Inr [fileKx, fileKy]
   \<and> fst (findCacheEntry prefixHost ([''j''] @ ''k'' # []) (Some ''b'')) = Inr (Some fileKy)"
proof -
  have a: "list_all (\<lambda>k. getFiles prefixHost (Some ''b'') (repo prefixHost @ ''/'' @ k) = Inr []) [''j'']"
    by (simp add: host_defs)
  have b: "getFiles prefixHost (Some ''b'') (repo prefixHost @ ''/'' @ ''k'') = Inr [fileKx, fileKy]"
    by (simp add: host_defs)
  have c: "2 \<le> length [fileKx, fileKy]" by simp
  have d: "list_all (\<lambda>f. name f \<noteq> repo prefixHost @ ''/'' @ ''k'') [fileKx, fileKy]"
    by (simp add: host_defs fileKx_def fileKy_def)
  from findCacheEntry_newest [OF a b c d, of "[]"]
  obtain f where f: "fst (findCacheEntry prefixHost ([''j''] @ ''k'' # []) (Some ''b'')) = Inr (Some f)"
    and mem: "f \<in> set [fileKx, fileKy]"
    and mx: "list_all (\<lambda>g. dateOf g \<le> dateOf f) [fileKx, fileKy]"
    by blast
  from mem mx have "f = fileKy"
    by (auto simp: dateOf_def fileKx_def fileKy_def)
  with f b show ?thesis by simp
qed

section \<open>Key validation\<close>

lemma checkKeys_long:
  "k \<in> set keys \<Longrightarrow> 512 < length k \<Longrightarrow> \<exists>msg. checkKeys keys = Inl (ValidationError msg)"
proof (induction keys)
  case Nil
  then show ?case by simp
next
  case (Cons key keys)
  show ?case
  proof (cases "512 < length key")
    case True
    then show ?thesis by (auto simp add: checkKey_def)
  next
    case False
    with Cons.prems have "k \<in> set keys" by auto
    with Cons.IH Cons.prems(2) obtain msg where "checkKeys keys = Inl (ValidationError msg)"
      by blast
    with False show ?thesis by (auto simp add: checkKey_def)
  qed
qed

lemma getCommonOptions_error:
  "getCommonOptions w h base = (Inl e, h1) \<Longrightarrow>
   e = ConfigUnsetError ''Config Error: no bucket value provided and ACTIONS_GCS_CACHE_BUCKET environment variable is unset''"
  by (auto simp: getCommonOptions_def Let_def split: option.splits if_splits prod.splits)

lemma getDownloadOptions_error:
  "getDownloadOptions w h base = (Inl e, h1) \<Longrightarrow>
   e = ConfigUnsetError ''Config Error: no bucket value provided and ACTIONS_GCS_CACHE_BUCKET environment variable is unset''"
  by (auto simp: getDownloadOptions_def split: prod.splits sum.splits if_splits
      dest: getCommonOptions_error)

text \<open>
  \<open>restoreCache\<close> checks every candidate key: with a key longer than 512 characters
  among them it throws, and the blob store is not called. The error is a
  \<open>ValidationError\<close> when the options have resolved, and the \<open>ConfigUnsetError\<close>
  of the options otherwise.
\<close>

lemma restoreCache_rejects_long_key:
  assumes "k \<in> set (primaryKey # (case restoreKeys of None \<Rightarrow> [] | Some ks \<Rightarrow> ks))"
    and "512 < length k"
  shows "snd (fst (restoreCache w h paths primaryKey restoreKeys options)) = []
     \<and> \<not> list_ex isNetwork (snd (fst (restoreCache w h paths primaryKey restoreKeys options)))
     \<and> (case fst (getDownloadOptions w h options) of
          Inr a \<Rightarrow>
            (\<exists>msg. fst (fst (restoreCache w h paths primaryKey restoreKeys options))
                     = Inl (ValidationError msg))
        | Inl e \<Rightarrow>
            fst (fst (restoreCache w h paths primaryKey restoreKeys options))
              = Inl (ConfigUnsetError ''Config Error: no bucket value provided and ACTIONS_GCS_CACHE_BUCKET environment variable is unset''))"
proof (cases "getDownloadOptions w h options")
  case (Pair r h1)
  show ?thesis
  proof (cases r)
    case (Inl e)
    with Pair getDownloadOptions_error [of w h options e h1] show ?thesis
      by (simp add: restoreCache_def)
  next
    case (Inr a)
    from checkKeys_long [OF assms] obtain msg where
      "checkKeys (primaryKey # (case restoreKeys of None \<Rightarrow> [] | Some ks \<Rightarrow> ks))
         = Inl (ValidationError msg)" by blast
    with Pair Inr show ?thesis
      by (auto simp add: restoreCache_def throw_def Let_def)
  qed
qed

text \<open>
  Claim C2. The key has 513 characters. \<open>saveCache\<close> does not check it: it builds
  the archive, starts the upload to the object named with that key, a network call, and
  ends with the string \<open>not implemented\<close>, not with a validation error. On the same
  host \<open>restoreCache\<close> with that key throws the \<open>ValidationError\<close> of
  \<open>checkKey\<close> and calls nothing.
\<close>

theorem saveCache_uploads_long_key:
  "length longKey = 513
   \<and> saveCache linuxHost [] [''p''] longKey None =
       ((Inl (Str ''not implemented''),
         [Exec ''zstd'' [''--quiet'', ''--version''],
          MkdirP ''/home/actions/temp/u'',
          WriteFile ''/home/actions/temp/u/manifest.txt'' ''p'',
          Exec ''tar'' [''cf'', ''/home/actions/temp/u/cache.tar.gzip'', ''--files-from'',
                        ''/home/actions/temp/u/manifest.txt'', ''--gzip''],
          Upload (Some ''b'') ''/home/actions/temp/u/cache.tar.gzip'' (''r/'' @ longKey)
            ''application/x-actions-cache-gcs-gzip'']),
        [\<lparr>bucket = Some ''b'', lookupOnly = None\<rparr>])
   \<and> isNetwork (Upload (Some ''b'') ''/home/actions/temp/u/cache.tar.gzip'' (''r/'' @ longKey)
            ''application/x-actions-cache-gcs-gzip'')
   \<and> restoreCache linuxHost [] [''p''] longKey None None =
       ((Inl (ValidationError (''Key Validation Error: '' @ longKey @ '' cannot be larger than 512 characters.'')), []),
        [\<lparr>bucket = Some ''b'', lookupOnly = Some False\<rparr>])"
proof -
  have a: "length longKey = 513" by (simp add: longKey_def)
  have b: "saveCache linuxHost [] [''p''] longKey None =
       ((Inl (Str ''not implemented''),
         [Exec ''zstd'' [''--quiet'', ''--version''],
          MkdirP ''/home/actions/temp/u'',
          WriteFile ''/home/actions/temp/u/manifest.txt'' ''p'',
          Exec ''tar'' [''cf'', ''/home/actions/temp/u/cache.tar.gzip'', ''--files-from'',
                        ''/home/actions/temp/u/manifest.txt'', ''--gzip''],
          Upload (Some ''b'') ''/home/actions/temp/u/cache.tar.gzip'' (''r/'' @ longKey)
            ''application/x-actions-cache-gcs-gzip'']),
        [\<lparr>bucket = Some ''b'', lookupOnly = None\<rparr>])"
    by (simp add: save_defs io_defs host_defs Let_def)
  have c: "getDownloadOptions linuxHost [] None = (Inr 0, [\<lparr>bucket = Some ''b'', lookupOnly = Some False\<rparr>])"
    by (simp add: getDownloadOptions_def getCommonOptions_def linuxHost_def)
  have d: "restoreCache linuxHost [] [''p''] longKey None None =
       ((Inl (ValidationError (''Key Validation Error: '' @ longKey @ '' cannot be larger than 512 characters.'')), []),
        [\<lparr>bucket = Some ''b'', lookupOnly = Some False\<rparr>])"
    using a by (simp add: restoreCache_def c checkKey_def throw_def)
  from a b d show ?thesis by simp
qed

section \<open>What restoreCache throws\<close>

text \<open>
  Once its options are read, \<open>restoreCache\<close> throws nothing but an error named
  \<open>ValidationError\<close>: every other value thrown inside its \<open>try\<close> block ends in
  the warning of the \<open>catch\<close> block.
\<close>

lemma checkKeys_error:
  "checkKeys keys = Inl e \<Longrightarrow> errorName e = Some ''ValidationError''"
  by (induction keys) (auto simp: checkKey_def ValidationError_def split: if_splits sum.splits)

lemma tryCatch_restoreCatch_error:
  "fst (tryCatch m restoreCatch) = Inl e \<Longrightarrow> errorName e = Some ''ValidationError''"
  by (auto simp: tryCatch_def restoreCatch_def throw_def andThen_def emit_def ok_def
      split: prod.splits sum.splits if_splits)

lemma restoreCache_throws_only_validation:
  assumes o: "getDownloadOptions w h options = (Inr a, h1)"
    and r: "fst (fst (restoreCache w h paths primaryKey restoreKeys options)) = Inl e"
  shows "errorName e = Some ''ValidationError''"
proof -
  define keys where "keys = primaryKey # (case restoreKeys of None \<Rightarrow> [] | Some ks \<Rightarrow> ks)"
  show ?thesis
  proof (cases "10 < length keys")
    case True
    with o r show ?thesis
      by (auto simp add: restoreCache_def keys_def throw_def ValidationError_def)
  next
    case short: False
    show ?thesis
    proof (cases "checkKeys keys")
      case (Inl e')
      with o r short have "e' = e"
        by (simp add: restoreCache_def keys_def throw_def del: checkKeys.simps)
      with Inl show ?thesis by (simp add: checkKeys_error)
    next
      case (Inr u)
      obtain m d where t: "restoreTry w (h1 ! a) keys = (m, d)"
        by (cases "restoreTry w (h1 ! a) keys") auto
      from o r short Inr t have "fst (tryCatch m restoreCatch) = Inl e"
        by (simp add: restoreCache_def keys_def del: checkKeys.simps split: prod.splits)
      then show ?thesis by (rule tryCatch_restoreCatch_error)
    qed
  qed
qed

section \<open>saveCache and restoreCache on concrete calls\<close>

text \<open>
  Claim C1. On a host where the paths resolve to one path, the archive is built and
  nothing fails, \<open>saveCache\<close> builds the archive, starts the upload and then throws
  the string \<open>not implemented\<close>. On a host where the upload fails it throws the same
  string, not the error of the upload.
\<close>

theorem saveCache_throws_not_implemented:
  "saveCache linuxHost [] [''p''] ''k'' None =
     ((Inl (Str ''not implemented''),
       [Exec ''zstd'' [''--quiet'', ''--version''],
        MkdirP ''/home/actions/temp/u'',
        WriteFile ''/home/actions/temp/u/manifest.txt'' ''p'',
        Exec ''tar'' [''cf'', ''/home/actions/temp/u/cache.tar.gzip'', ''--files-from'',
                      ''/home/actions/temp/u/manifest.txt'', ''--gzip''],
        Upload (Some ''b'') ''/home/actions/temp/u/cache.tar.gzip'' ''r/k''
          ''application/x-actions-cache-gcs-gzip'']),
      [\<lparr>bucket = Some ''b'', lookupOnly = None\<rparr>])
   \<and> fails uploadFailHost (Upload (Some ''b'') ''/home/actions/temp/u/cache.tar.gzip'' ''r/k''
          ''application/x-actions-cache-gcs-gzip'') = Some (Error ''Error'' ''upload failed'')
   \<and> fst (fst (saveCache uploadFailHost [] [''p''] ''k'' None)) = Inl (Str ''not implemented'')"
  by (simp add: save_defs io_defs host_defs Let_def)

text \<open>
  Claim C3. The repository is \<open>r\<close>, the candidate key is \<open>k\<close> and the stored entry
  is named \<open>r/k\<close>: \<open>restoreCache\<close> returns \<open>/k\<close>, the name without the repository
  but with the separator, not the key \<open>k\<close>.
\<close>

theorem restoreCache_returns_slash_key:
  "restoreCache hitHost [] [''p''] ''k'' None None =
     ((Inr (Some ''/k''),
       [GetFiles (Some ''b'') ''r/k'',
        MkdirP ''/home/actions/temp/u'',
        Download ''r/k'' ''/home/actions/temp/u/cache.tar.gzip'',
        MkdirP ''/w'',
        Exec ''tar'' [''xf'', ''/home/actions/temp/u/cache.tar.gzip''],
        RmRF ''/home/actions/temp/u/cache.tar.gzip'']),
      [\<lparr>bucket = Some ''b'', lookupOnly = Some False\<rparr>])"
  by (simp add: restore_defs io_defs host_defs fileK_def Let_def)

text \<open>
  Claim C6. On a host where the \<open>tar\<close> process of the extraction fails,
  \<open>restoreCache\<close> still returns the matched name and logs no warning: the failure
  of the extraction is neither caught nor turned into a miss.
\<close>

theorem restoreCache_ignores_tar_failure:
  "fails tarFailHost (Exec ''tar'' [''xf'', ''/home/actions/temp/u/cache.tar.gzip''])
     = Some (Error ''Error'' ''tar exited with code 2'')
   \<and> fst (restoreCache tarFailHost [] [''p''] ''k'' None None) =
     (Inr (Some ''/k''),
       [GetFiles (Some ''b'') ''r/k'',
        MkdirP ''/home/actions/temp/u'',
        Download ''r/k'' ''/home/actions/temp/u/cache.tar.gzip'',
        MkdirP ''/w'',
        Exec ''tar'' [''xf'', ''/home/actions/temp/u/cache.tar.gzip''],
        RmRF ''/home/actions/temp/u/cache.tar.gzip''])"
  by (simp add: restore_defs io_defs host_defs fileK_def Let_def)

section \<open>The effects of saveCache\<close>

lemma snd_andThen:
  "snd (andThen m f) = snd m @ (case fst m of Inl e \<Rightarrow> [] | Inr x \<Rightarrow> snd (f x))"
  by (auto simp: andThen_def split: prod.splits sum.splits)

lemma snd_tryCatch:
  "snd (tryCatch m f) = snd m @ (case fst m of Inl e \<Rightarrow> snd (f e) | Inr x \<Rightarrow> [])"
  by (auto simp: tryCatch_def split: prod.splits sum.splits)

lemma snd_awaited: "snd (awaited w ev) = [ev]"
  by (simp add: awaited_def split: option.splits)

lemma createTar_no_rm: "\<not> list_ex isRmRF (snd (createTar w archive tempdir paths method))"
  by (simp add: createTar_def Let_def snd_andThen snd_awaited split: sum.splits)

lemma createTempDirectory_no_rm: "\<not> list_ex isRmRF (snd (createTempDirectory w))"
  by (simp add: createTempDirectory_def Let_def snd_andThen snd_awaited ok_def split: sum.splits)

lemma saveCacheBody_no_rm: "\<not> list_ex isRmRF (snd (saveCacheBody w options paths key))"
  using createTar_no_rm createTempDirectory_no_rm
  by (simp add: saveCacheBody_def Let_def snd_andThen snd_tryCatch getCompressionMethod_def
      getZstdVersion_def resolvePaths_def ok_def throw_def emit_def split: sum.splits)

text \<open>
  Claim C8. No call of \<open>saveCache\<close> asks for the removal of anything: on every
  exit path the effects of the call hold no \<open>RmRF\<close>, also when the call has made its
  temporary directory, as the call on the Linux host has.
\<close>

theorem saveCache_never_removes:
  "\<not> list_ex isRmRF (snd (fst (saveCache w h paths key options)))
   \<and> MkdirP ''/home/actions/temp/u'' \<in> set (snd (fst (saveCache linuxHost [] [''p''] ''k'' None)))"
proof -
  have "\<not> list_ex isRmRF (snd (fst (saveCache w h paths key options)))"
    using saveCacheBody_no_rm
    by (simp add: saveCache_def split: prod.splits sum.splits)
  moreover
  have "MkdirP ''/home/actions/temp/u'' \<in> set (snd (fst (saveCache linuxHost [] [''p''] ''k'' None)))"
    by (simp add: save_defs io_defs host_defs Let_def)
  ultimately show ?thesis by simp
qed

section \<open>The options object of the caller\<close>

lemma snd_saveCache: "snd (saveCache w h paths key options) = snd (getCommonOptions w h options)"
  by (simp add: saveCache_def getUploadOptions_def split: prod.splits sum.splits)

lemma snd_restoreCache:
  "snd (restoreCache w h paths primaryKey restoreKeys options) = snd (getDownloadOptions w h options)"
  by (simp add: restoreCache_def Let_def split: prod.splits sum.splits)

lemma getCommonOptions_assigns:
  assumes "a < length h" "bucket (h ! a) = None"
    "environ w ''ACTIONS_GCS_CACHE_BUCKET'' = Some v" "v \<noteq> []"
  shows "getCommonOptions w h (Some a) = (Inr a, h[a := (h ! a)\<lparr>bucket := Some v\<rparr>])"
  using assms by (simp add: getCommonOptions_def)

text \<open>
  Claim C10, as stated, on a host where the variable \<open>ACTIONS_GCS_CACHE_BUCKET\<close> is
  not set: the caller's object, with no bucket, is the same after \<open>saveCache\<close> and
  after \<open>restoreCache\<close>; both end with a \<open>ConfigUnsetError\<close>, and
  \<open>lookupOnly\<close> is not assigned either.
\<close>

theorem options_unchanged_without_bucket_variable:
  "environ noBucketHost ''ACTIONS_GCS_CACHE_BUCKET'' = None
   \<and> saveCache noBucketHost [\<lparr>bucket = None, lookupOnly = None\<rparr>] [''p''] ''k'' (Some 0) =
       ((Inl (ConfigUnsetError ''Config Error: no bucket value provided and ACTIONS_GCS_CACHE_BUCKET environment variable is unset''), []),
        [\<lparr>bucket = None, lookupOnly = None\<rparr>])
   \<and> restoreCache noBucketHost [\<lparr>bucket = None, lookupOnly = None\<rparr>] [''p''] ''k'' None (Some 0) =
       ((Inl (ConfigUnsetError ''Config Error: no bucket value provided and ACTIONS_GCS_CACHE_BUCKET environment variable is unset''), []),
        [\<lparr>bucket = None, lookupOnly = None\<rparr>])"
  by (simp add: saveCache_def restoreCache_def getUploadOptions_def getDownloadOptions_def
      getCommonOptions_def noBucketHost_def linuxHost_def)

text \<open>
  Claim C10, amended. When \<open>saveCache\<close> or \<open>restoreCache\<close> is called with an
  options object whose bucket is unset, and the variable \<open>ACTIONS_GCS_CACHE_BUCKET\<close>
  is set to a non-empty value, the call writes into the caller's object: after the call
  its bucket is the value of the variable, and after \<open>restoreCache\<close> an undefined
  \<open>lookupOnly\<close> is \<open>false\<close> (a defined one is kept).
\<close>

theorem options_mutated_in_place:
  assumes "a < length h" "bucket (h ! a) = None"
    "environ w ''ACTIONS_GCS_CACHE_BUCKET'' = Some v" "v \<noteq> []"
  shows "bucket (snd (saveCache w h paths key (Some a)) ! a) = Some v
     \<and> lookupOnly (snd (saveCache w h paths key (Some a)) ! a) = lookupOnly (h ! a)
     \<and> bucket (snd (restoreCache w h paths primaryKey restoreKeys (Some a)) ! a) = Some v
     \<and> lookupOnly (snd (restoreCache w h paths primaryKey restoreKeys (Some a)) ! a)
         = Some (case lookupOnly (h ! a) of None \<Rightarrow> False | Some l \<Rightarrow> l)"
  using assms
  by (auto simp: snd_saveCache snd_restoreCache getCommonOptions_assigns getDownloadOptions_def
      split: option.splits)

theorem options_mutated_in_place_witness:
  "(0::nat) < length [\<lparr>bucket = None, lookupOnly = None\<rparr>]
   \<and> bucket ([\<lparr>bucket = None, lookupOnly = None\<rparr>] ! 0) = None
   \<and> environ linuxHost ''ACTIONS_GCS_CACHE_BUCKET'' = Some ''b''
   \<and> snd (saveCache linuxHost [\<lparr>bucket = None, lookupOnly = None\<rparr>] [''p''] ''k'' (Some 0))
       = [\<lparr>bucket = Some ''b'', lookupOnly = None\<rparr>]
   \<and> snd (restoreCache linuxHost [\<lparr>bucket = None, lookupOnly = None\<rparr>] [''p''] ''k'' None (Some 0))
       = [\<lparr>bucket = Some ''b'', lookupOnly = Some False\<rparr>]"
proof -
  have a: "(0::nat) < length [\<lparr>bucket = None, lookupOnly = None\<rparr>]" by simp
  have b: "bucket ([\<lparr>bucket = None, lookupOnly = None\<rparr>] ! 0) = None" by simp
  have c: "environ linuxHost ''ACTIONS_GCS_CACHE_BUCKET'' = Some ''b''"
    by (simp add: linuxHost_def)
  have d: "''b'' \<noteq> []" by simp
  have e: "length (snd (saveCache linuxHost [\<lparr>bucket = None, lookupOnly = None\<rparr>] [''p''] ''k'' (Some 0))) = 1"
    "length (snd (restoreCache linuxHost [\<lparr>bucket = None, lookupOnly = None\<rparr>] [''p''] ''k'' None (Some 0))) = 1"
    by (simp_all add: snd_saveCache snd_restoreCache getDownloadOptions_def getCommonOptions_def
        linuxHost_def)
  from options_mutated_in_place [OF a b c d, of "[''p'']" "''k''" "''k''" None] a b c e
  show ?thesis
    by (auto simp: length_Suc_conv)
qed

section \<open>The archive command of saveCache\<close>

lemma filter_isExec_createTempDirectory:
  "filter isExec (snd (createTempDirectory w)) = []"
  by (simp add: createTempDirectory_def Let_def snd_andThen snd_awaited ok_def split: sum.splits)

text \<open>
  Claim C5, as stated, on a Linux host with gzip: the programs \<open>saveCache\<close> runs are
  the zstd probe and \<open>tar cf\<close> on the archive in the temporary directory, reading the
  manifest there; the arguments hold neither \<open>--exclude\<close> nor \<open>-C\<close>, and the
  command line is not the one \<open>getCommands\<close> builds for create.
\<close>

theorem saveCache_command_is_not_the_builders:
  "filter isExec (snd (fst (saveCache linuxHost [] [''p''] ''k'' None))) =
     [Exec ''zstd'' [''--quiet'', ''--version''],
      Exec ''tar'' [''cf'', ''/home/actions/temp/u/cache.tar.gzip'',
                    ''--files-from'', ''/home/actions/temp/u/manifest.txt'', ''--gzip'']]
   \<and> getCommands linuxHost Gzip Create [] =
       Inr [''/usr/bin/tar --posix -cf cache.tar.gzip --exclude cache.tar.gzip -P -C /w --files-from manifest.txt -z'']
   \<and> getCommands linuxHost Gzip Create [] \<noteq>
       Inr [join '' '' [''tar'', ''cf'', ''/home/actions/temp/u/cache.tar.gzip'',
                        ''--files-from'', ''/home/actions/temp/u/manifest.txt'', ''--gzip'']]
   \<and> ''--exclude'' \<notin> set [''cf'', ''/home/actions/temp/u/cache.tar.gzip'',
                    ''--files-from'', ''/home/actions/temp/u/manifest.txt'', ''--gzip'']
   \<and> ''-C'' \<notin> set [''cf'', ''/home/actions/temp/u/cache.tar.gzip'',
                    ''--files-from'', ''/home/actions/temp/u/manifest.txt'', ''--gzip'']"
  by (simp add: save_defs io_defs host_defs Let_def getCommands_def getTarPath_def
      whichChecked_def getTarArgs_def getCompressionProgram_def bsdTarZstd_def
      getCacheFilename_def ManifestFilename_def)

text \<open>
  Claim C5, amended. Every call of \<open>saveCache\<close> that reaches the archive build
  (options resolved, a non-empty resolved path list, the temporary directory made, the
  manifest written) runs, after the zstd probe, exactly one archiving command:
  \<open>tar cf archive --files-from manifest\<close> with \<open>--gzip\<close> or \<open>--zstd\<close>, where
  the archive and the manifest are in the temporary directory. It reads the paths from
  the manifest; it has no exclude argument and no change-directory argument.
\<close>

theorem saveCache_archive_command:
  assumes "getUploadOptions w h options = (Inr a, h1)"
    and "getCompressionMethod w = (Inr method, t0)"
    and "resolvePaths w paths = (Inr cachePaths, t1)"
    and "cachePaths \<noteq> []"
    and "createTempDirectory w = (Inr tempdir, t2)"
    and "fails w (WriteFile (pathJoin w [tempdir, ''manifest.txt'']) (join newline paths)) = None"
  shows "filter isExec (snd (fst (saveCache w h paths key options))) =
           [Exec ''zstd'' [''--quiet'', ''--version''],
            Exec ''tar'' [''cf'', pathJoin w [tempdir, ''cache.tar.'' @ methodName method],
                          ''--files-from'', pathJoin w [tempdir, ''manifest.txt''],
                          if method = Gzip then ''--gzip'' else ''--zstd'']]"
proof -
  have t0: "filter isExec t0 = [Exec ''zstd'' [''--quiet'', ''--version'']]"
    using assms(2) by (auto simp: getCompressionMethod_def getZstdVersion_def andThen_def ok_def)
  have t1: "t1 = []"
    using assms(3) by (auto simp: resolvePaths_def ok_def throw_def split: sum.splits)
  have t2: "filter isExec t2 = []"
    using filter_isExec_createTempDirectory [of w] assms(5) by simp
  show ?thesis
    using assms(4) t0 t1 t2
    by (simp add: saveCache_def saveCacheBody_def assms(1,2,3,5,6) andThen_def tryCatch_def
        createTar_def awaited_def emit_def throw_def ok_def Let_def split: option.splits)
qed

theorem saveCache_archive_command_witness:
  "getUploadOptions linuxHost [] None = (Inr 0, [\<lparr>bucket = Some ''b'', lookupOnly = None\<rparr>])
   \<and> getCompressionMethod linuxHost = (Inr Gzip, [Exec ''zstd'' [''--quiet'', ''--version'']])
   \<and> resolvePaths linuxHost [''p''] = (Inr [''p''], [])
   \<and> createTempDirectory linuxHost = (Inr ''/home/actions/temp/u'', [MkdirP ''/home/actions/temp/u''])
   \<and> filter isExec (snd (fst (saveCache linuxHost [] [''p''] ''k'' None))) =
           [Exec ''zstd'' [''--quiet'', ''--version''],
            Exec ''tar'' [''cf'', ''/home/actions/temp/u/cache.tar.gzip'',
                          ''--files-from'', ''/home/actions/temp/u/manifest.txt'', ''--gzip'']]"
proof -
  have a: "getUploadOptions linuxHost [] None = (Inr 0, [\<lparr>bucket = Some ''b'', lookupOnly = None\<rparr>])"
    by (simp add: getUploadOptions_def getCommonOptions_def linuxHost_def)
  have b: "getCompressionMethod linuxHost = (Inr Gzip, [Exec ''zstd'' [''--quiet'', ''--version'']])"
    by (simp add: getCompressionMethod_def getZstdVersion_def andThen_def ok_def linuxHost_def)
  have c: "resolvePaths linuxHost [''p''] = (Inr [''p''], [])"
    by (simp add: save_defs io_defs host_defs)
  have d: "[''p''] \<noteq> []" by simp
  have e: "createTempDirectory linuxHost = (Inr ''/home/actions/temp/u'', [MkdirP ''/home/actions/temp/u''])"
    by (simp add: save_defs io_defs host_defs Let_def)
  have f: "fails linuxHost (WriteFile (pathJoin linuxHost [''/home/actions/temp/u'', ''manifest.txt''])
             (join newline [''p''])) = None"
    by (simp add: linuxHost_def)
  have g: "pathJoin linuxHost [''/home/actions/temp/u'', ''cache.tar.'' @ methodName Gzip]
             = ''/home/actions/temp/u/cache.tar.gzip''"
    "pathJoin linuxHost [''/home/actions/temp/u'', ''manifest.txt'']
             = ''/home/actions/temp/u/manifest.txt''"
    by (simp_all add: host_defs)
  from saveCache_archive_command [OF a b c d e f, of "''k''"] a b c e g
  show ?thesis by simp
qed

end
